theory Spec2Isabelle
  imports Complex_Main
begin

section \<open>Time zone overlap finder: data model\<close>

text \<open>
  The program is TypeScript. Its calculators (\<open>OverlapCalculator\<close>, \<open>MeetingSuggester\<close>)
  and its \<open>TimeZoneConverter\<close> are embedded below as HOL functions.

  \<^item> A thrown \<open>Error\<close> is a value \<open>Error msg\<close>; a function that can throw returns
    \<open>js_error + 'a\<close>, with \<open>Inl\<close> for the throw.
  \<^item> A JavaScript \<open>number\<close> that holds hours or minutes is a rational: every such
    value the calculators compute from integer hours and millisecond instants is an exact
    rational, and the comparisons the code makes on them (\<open><\<close>, \<open>\<ge>\<close>, against
    \<open>1/3\<close> and \<open>2/3\<close>) are apart by far more than a rounding error.
  \<^item> A JavaScript \<open>Date\<close> is \<open>int option\<close>: its time value in milliseconds since
    the epoch, or \<open>None\<close> for an invalid date (time value \<open>NaN\<close>).
\<close>

datatype js_error = Error (message: string)

record City =
  name :: string
  country :: string
  timezone :: string

text \<open>\<open>WorkingHours\<close> has the fields \<open>start\<close> and \<open>end\<close> in the source.\<close>

record WorkingHours =
  startHour :: rat
  endHour :: rat

subsection \<open>The date-time library\<close>

text \<open>
  The date-time values come from the Luxon library, which is not part of the repository.
  A zone object has a name and a rule giving, for every instant, the offset of its wall
  clock from UTC in minutes. A valid \<open>DateTime\<close> is an instant \<open>ts\<close> (milliseconds since the
  epoch) together with a zone; the wall clock is read off \<open>ts\<close> shifted by the offset. An
  invalid \<open>DateTime\<close> (\<open>isValid\<close> false) is \<open>None\<close> of \<open>DateTime option\<close>. The zone
  data of the runtime is a lookup from identifiers to zone objects; the zone objects are
  those of IANA identifiers and of UTC.

  The library computes on JavaScript \<open>Date\<close> values, whose time value lies within
  \<open>8.64e15\<close> milliseconds of the epoch. Where it builds a date-time from a wall clock
  (\<open>set\<close>, \<open>startOf\<close>, \<open>plus\<close> of days) or from a \<open>Date\<close>, a wall clock or an instant
  outside that range gives \<open>NaN\<close> and the date-time is invalid. The operations that
  work on a date-time already built (\<open>setZone\<close>, \<open>toUTC\<close>, \<open>plus\<close> of minutes) are
  given for the instants whose wall clock stays within the range.
\<close>

record Zone =
  zoneName :: string
  offset :: "int \<Rightarrow> int"

record DateTime =
  ts :: int
  zone :: Zone

type_synonym tzdata = "string \<Rightarrow> Zone option"

definition utcZone :: Zone where
  "utcZone = \<lparr>zoneName = ''UTC'', offset = (\<lambda>t. 0)\<rparr>"

text \<open>The wall clock of a date-time, as milliseconds since the epoch read as if in UTC.\<close>

definition localTS :: "DateTime \<Rightarrow> int" where
  "localTS dt = ts dt + offset (zone dt) (ts dt) * 60 * 1000"

definition dt_hour :: "DateTime \<Rightarrow> int" where
  "dt_hour dt = (localTS dt div 3600000) mod 24"

definition dt_minute :: "DateTime \<Rightarrow> int" where
  "dt_minute dt = (localTS dt div 60000) mod 60"

text \<open>The range of the time values of \<open>Date\<close>.\<close>

definition maxDate :: int where
  "maxDate = 8640000000000000"

definition inDateRange :: "int \<Rightarrow> bool" where
  "inDateRange t = (- maxDate \<le> t \<and> t \<le> maxDate)"

text \<open>
  \<open>zone.offset(ts)\<close>: the offset of the rule, or \<open>NaN\<close> (\<open>None\<close>) when the instant or
  the wall clock it stands for is not a time value of \<open>Date\<close>.
\<close>

definition offsetAt :: "Zone \<Rightarrow> int \<Rightarrow> int option" where
  "offsetAt z t =
     (if inDateRange t \<and> inDateRange (t + offset z t * 60 * 1000) then Some (offset z t)
      else None)"

text \<open>
  The constructor, given an instant and a zone: the date-time is invalid when the offset
  there is \<open>NaN\<close>.
\<close>

definition newDateTime :: "int \<Rightarrow> Zone \<Rightarrow> DateTime option" where
  "newDateTime t z = (case offsetAt z t of None \<Rightarrow> None | Some off \<Rightarrow> Some \<lparr>ts = t, zone = z\<rparr>)"

text \<open>
  The library's resolution of a wall clock \<open>wallTS\<close> to an instant of zone \<open>tz\<close>, from
  a guess \<open>o1\<close> of the offset. The result is the instant and the offset there. A wall clock
  that a clock change skips is moved forward by the size of the gap.
\<close>

definition fixOffset :: "Zone \<Rightarrow> int \<Rightarrow> int \<Rightarrow> int \<times> int" where
  "fixOffset tz wallTS o1 =
     (let utcGuess = wallTS - o1 * 60 * 1000;
          o2 = offset tz utcGuess
      in if o1 = o2 then (utcGuess, o1)
         else let utcGuess2 = utcGuess - (o2 - o1) * 60 * 1000;
                  o3 = offset tz utcGuess2
              in if o2 = o3 then (utcGuess2, o2)
                 else (wallTS - min o2 o3 * 60 * 1000, max o2 o3))"

text \<open>
  \<open>fixOffset\<close> above is the arithmetic on numbers. The offsets it asks the zone for can be
  \<open>NaN\<close>, and then so is its result: \<open>fixOffsetDefined\<close> says that they are not.
\<close>

definition fixOffsetDefined :: "Zone \<Rightarrow> int \<Rightarrow> int \<Rightarrow> bool" where
  "fixOffsetDefined tz wallTS o1 =
     (let utcGuess = wallTS - o1 * 60 * 1000
      in case offsetAt tz utcGuess of
           None \<Rightarrow> False
         | Some o2 \<Rightarrow>
             o1 = o2 \<or> offsetAt tz (utcGuess - (o2 - o1) * 60 * 1000) \<noteq> None)"

text \<open>
  A date-time of zone \<open>tz\<close> from a wall clock, as \<open>set\<close> and \<open>plus\<close> build it: the wall
  clock is assembled with \<open>Date.UTC\<close> (\<open>NaN\<close> outside the range), resolved by
  \<open>fixOffset\<close>, and the instant is handed to the constructor.
\<close>

definition resolveWallClock :: "Zone \<Rightarrow> int \<Rightarrow> int \<Rightarrow> DateTime option" where
  "resolveWallClock tz wallTS o1 =
     (if inDateRange wallTS \<and> fixOffsetDefined tz wallTS o1
      then newDateTime (fst (fixOffset tz wallTS o1)) tz
      else None)"

text \<open>\<open>dt.setZone(tz)\<close>: the same instant in another zone; invalid for an unknown zone.\<close>

definition dt_setZone :: "tzdata \<Rightarrow> string \<Rightarrow> DateTime \<Rightarrow> DateTime option" where
  "dt_setZone db tz dt = (case db tz of None \<Rightarrow> None | Some z \<Rightarrow> Some (dt\<lparr>zone := z\<rparr>))"

text \<open>
  \<open>dt.setZone(tz, { keepLocalTime: true })\<close>: the value itself when it already is in
  that zone, otherwise the same wall clock resolved in the new zone.
\<close>

definition dt_setZone_keepLocalTime :: "tzdata \<Rightarrow> string \<Rightarrow> DateTime \<Rightarrow> DateTime option" where
  "dt_setZone_keepLocalTime db tz dt =
     (case db tz of
        None \<Rightarrow> None
      | Some z \<Rightarrow>
          if zoneName z = zoneName (zone dt) then Some dt
          else Some \<lparr>ts = fst (fixOffset z (localTS dt) (offset z (ts dt))), zone = z\<rparr>)"

text \<open>\<open>dt.toUTC()\<close>: the same instant in the UTC zone; never invalid for a valid value.\<close>

definition dt_toUTC :: "DateTime \<Rightarrow> DateTime option" where
  "dt_toUTC dt = Some (dt\<lparr>zone := utcZone\<rparr>)"

text \<open>
  A fractional field value is truncated towards zero when the wall clock is assembled
  (\<open>Date.UTC\<close>).
\<close>

definition truncateNumber :: "rat \<Rightarrow> int" where
  "truncateNumber q = (if q < 0 then \<lceil>q\<rceil> else \<lfloor>q\<rfloor>)"

text \<open>
  \<open>dt.set({ hour: h, minute: 0, second: 0, millisecond: 0 })\<close>: the wall clock keeps its
  calendar day and takes the given time of day; an hour of 24 runs over into the next day.
  The offset of \<open>dt\<close> is the guess. \<open>dt.startOf('day')\<close> is the same with hour 0.
\<close>

definition dt_set_hour :: "DateTime \<Rightarrow> rat \<Rightarrow> DateTime option" where
  "dt_set_hour dt h =
     (let l = localTS dt;
          midnight = l - l mod 86400000;
          wanted = midnight + truncateNumber h * 3600000
      in resolveWallClock (zone dt) wanted (offset (zone dt) (ts dt)))"

definition dt_startOfDay :: "DateTime \<Rightarrow> DateTime option" where
  "dt_startOfDay dt = dt_set_hour dt 0"

text \<open>\<open>dt.plus({ days: n })\<close> moves the wall clock by whole calendar days.\<close>

definition dt_plus_days :: "DateTime \<Rightarrow> int \<Rightarrow> DateTime option" where
  "dt_plus_days dt n =
     resolveWallClock (zone dt) (localTS dt + n * 86400000) (offset (zone dt) (ts dt))"

text \<open>\<open>dt.plus({ minutes: m })\<close> moves the instant by exactly that many minutes.\<close>

definition dt_plus_minutes :: "DateTime \<Rightarrow> int \<Rightarrow> DateTime" where
  "dt_plus_minutes dt m = dt\<lparr>ts := ts dt + m * 60000\<rparr>"

text \<open>\<open>a.diff(b, 'minutes').minutes\<close>: the distance of the instants, in minutes.\<close>

definition dt_diff_minutes :: "DateTime \<Rightarrow> DateTime \<Rightarrow> rat" where
  "dt_diff_minutes a b = of_int (ts a - ts b) / 60000"

text \<open>
  \<open>DateTime.fromJSDate(date).setZone(tz)\<close>: the instant of the date, seen in the zone;
  invalid for an invalid date, an unknown zone, or a wall clock outside the range. The
  intermediate value is in the zone of the system, taken to be UTC, where every valid date
  gives a valid date-time.
\<close>

definition fromJSDate_setZone :: "tzdata \<Rightarrow> string \<Rightarrow> int option \<Rightarrow> DateTime option" where
  "fromJSDate_setZone db tz date =
     (case date of
        None \<Rightarrow> None
      | Some t \<Rightarrow> (case db tz of None \<Rightarrow> None | Some z \<Rightarrow> newDateTime t z))"

subsection \<open>Results\<close>

text \<open>\<open>TimeRange\<close> has the fields \<open>start\<close> and \<open>end\<close> in the source.\<close>

record TimeRange =
  rangeStart :: DateTime
  rangeEnd :: DateTime

text \<open>
  The optional fields of \<open>OverlapResult\<close> are options. Its \<open>durationMinutes\<close> is named
  \<open>overlapMinutes\<close> here, apart from the field of \<open>MeetingSuggestion\<close>.
\<close>

record OverlapResult =
  hasOverlap :: bool
  overlapInUTC :: "TimeRange option"
  overlapInCityA :: "TimeRange option"
  overlapInCityB :: "TimeRange option"
  overlapMinutes :: "rat option"

datatype MeetingQuality = PerfectTime | AcceptableTime | NotRecommended

record MeetingSuggestion =
  timeInCityA :: DateTime
  timeInCityB :: DateTime
  quality :: MeetingQuality
  durationMinutes :: rat

section \<open>TimeZoneConverter\<close>

text \<open>
  \<open>isValidTimezone\<close>: false for the empty string; otherwise the library must know the
  zone and name it exactly as it was asked for.
\<close>

definition isValidTimezone :: "tzdata \<Rightarrow> string \<Rightarrow> bool" where
  "isValidTimezone db tz =
     (if tz = [] then False
      else case db tz of None \<Rightarrow> False | Some z \<Rightarrow> zoneName z = tz)"

definition convertToUTC :: "tzdata \<Rightarrow> DateTime option \<Rightarrow> string \<Rightarrow> js_error + DateTime" where
  "convertToUTC db time tz =
     (if \<not> isValidTimezone db tz then Inl (Error (''Invalid timezone identifier: '' @ tz))
      else case time of
        None \<Rightarrow> Inl (Error ''Invalid DateTime object provided for conversion'')
      | Some t \<Rightarrow>
          (case dt_setZone_keepLocalTime db tz t of
             None \<Rightarrow> Inl (Error (''Failed to convert time to timezone: '' @ tz))
           | Some timeInZone \<Rightarrow>
               (case dt_toUTC timeInZone of
                  None \<Rightarrow> Inl (Error ''Failed to convert time to UTC'')
                | Some utcTime \<Rightarrow> Inr utcTime)))"

definition convertFromUTC :: "tzdata \<Rightarrow> DateTime option \<Rightarrow> string \<Rightarrow> js_error + DateTime" where
  "convertFromUTC db time tz =
     (if \<not> isValidTimezone db tz then Inl (Error (''Invalid timezone identifier: '' @ tz))
      else case time of
        None \<Rightarrow> Inl (Error ''Invalid DateTime object provided for conversion'')
      | Some t \<Rightarrow>
          (case dt_toUTC t of
             None \<Rightarrow> Inl (Error ''Failed to convert time to UTC'')
           | Some timeInUTC \<Rightarrow>
               (case dt_setZone db tz timeInUTC of
                  None \<Rightarrow> Inl (Error (''Failed to convert time to timezone: '' @ tz))
                | Some convertedTime \<Rightarrow> Inr convertedTime)))"

section \<open>OverlapCalculator\<close>

definition isValidWorkingHours :: "WorkingHours \<Rightarrow> bool" where
  "isValidWorkingHours hours =
     (startHour hours \<ge> 0 \<and> startHour hours < 24 \<and>
      endHour hours \<ge> 0 \<and> endHour hours \<le> 24 \<and>
      startHour hours \<noteq> endHour hours)"

definition workingHoursToUTC ::
  "tzdata \<Rightarrow> WorkingHours \<Rightarrow> string \<Rightarrow> int option \<Rightarrow> js_error + TimeRange" where
  "workingHoursToUTC db workingHours tz date =
     (let baseDate = Option.bind (fromJSDate_setZone db tz date) dt_startOfDay;
          start = Option.bind baseDate (\<lambda>d. dt_set_hour d (startHour workingHours));
          end0 = Option.bind baseDate (\<lambda>d. dt_set_hour d (endHour workingHours));
          end1 = (if endHour workingHours \<le> startHour workingHours
                  then Option.bind end0 (\<lambda>d. dt_plus_days d 1) else end0)
      in case convertToUTC db start tz of
           Inl e \<Rightarrow> Inl e
         | Inr startUTC \<Rightarrow>
             (case convertToUTC db end1 tz of
                Inl e \<Rightarrow> Inl e
              | Inr endUTC \<Rightarrow> Inr \<lparr>rangeStart = startUTC, rangeEnd = endUTC\<rparr>))"

text \<open>Date-times are compared by their instants.\<close>

definition calculateIntersection :: "TimeRange \<Rightarrow> TimeRange \<Rightarrow> TimeRange option" where
  "calculateIntersection rangeA rangeB =
     (let intersectionStart =
            (if ts (rangeStart rangeA) > ts (rangeStart rangeB)
             then rangeStart rangeA else rangeStart rangeB);
          intersectionEnd =
            (if ts (rangeEnd rangeA) < ts (rangeEnd rangeB)
             then rangeEnd rangeA else rangeEnd rangeB)
      in if ts intersectionStart \<ge> ts intersectionEnd then None
         else Some \<lparr>rangeStart = intersectionStart, rangeEnd = intersectionEnd\<rparr>)"

text \<open>The body of the \<open>try\<close> block of \<open>calculateOverlap\<close>.\<close>

definition calculateOverlap_try ::
  "tzdata \<Rightarrow> City \<Rightarrow> City \<Rightarrow> WorkingHours \<Rightarrow> WorkingHours \<Rightarrow> int option
     \<Rightarrow> js_error + OverlapResult" where
  "calculateOverlap_try db cityA cityB workingHoursA workingHoursB date =
     (case workingHoursToUTC db workingHoursA (timezone cityA) date of
        Inl e \<Rightarrow> Inl e
      | Inr rangeA \<Rightarrow>
     (case workingHoursToUTC db workingHoursB (timezone cityB) date of
        Inl e \<Rightarrow> Inl e
      | Inr rangeB \<Rightarrow>
     (case calculateIntersection rangeA rangeB of
        None \<Rightarrow>
          Inr \<lparr>hasOverlap = False, overlapInUTC = None, overlapInCityA = None,
               overlapInCityB = None, overlapMinutes = None\<rparr>
      | Some intersection \<Rightarrow>
     (case convertFromUTC db (Some (rangeStart intersection)) (timezone cityA) of
        Inl e \<Rightarrow> Inl e
      | Inr startA \<Rightarrow>
     (case convertFromUTC db (Some (rangeEnd intersection)) (timezone cityA) of
        Inl e \<Rightarrow> Inl e
      | Inr endA \<Rightarrow>
     (case convertFromUTC db (Some (rangeStart intersection)) (timezone cityB) of
        Inl e \<Rightarrow> Inl e
      | Inr startB \<Rightarrow>
     (case convertFromUTC db (Some (rangeEnd intersection)) (timezone cityB) of
        Inl e \<Rightarrow> Inl e
      | Inr endB \<Rightarrow>
          Inr \<lparr>hasOverlap = True,
               overlapInUTC = Some intersection,
               overlapInCityA = Some \<lparr>rangeStart = startA, rangeEnd = endA\<rparr>,
               overlapInCityB = Some \<lparr>rangeStart = startB, rangeEnd = endB\<rparr>,
               overlapMinutes =
                 Some (dt_diff_minutes (rangeEnd intersection)
                         (rangeStart intersection))\<rparr>)))))))"

text \<open>\<open>String.prototype.includes\<close>, by way of a prefix test at every position.\<close>

fun startsWith :: "string \<Rightarrow> string \<Rightarrow> bool" where
  "startsWith s [] = True"
| "startsWith [] (c # cs) = False"
| "startsWith (a # as) (c # cs) = (a = c \<and> startsWith as cs)"

fun includes_str :: "string \<Rightarrow> string \<Rightarrow> bool" where
  "includes_str [] sub = startsWith [] sub"
| "includes_str (a # as) sub = (startsWith (a # as) sub \<or> includes_str as sub)"

text \<open>
  The \<open>catch\<close> block of \<open>calculateOverlap\<close>: what is thrown on for a caught error.
  Every value thrown inside the \<open>try\<close> block is an \<open>Error\<close>.
\<close>

definition calculateOverlap_catch :: "js_error \<Rightarrow> js_error" where
  "calculateOverlap_catch error =
     (if includes_str (message error) ''timezone'' then error
      else Error ''Failed to calculate overlap. Please check your inputs and try again.'')"

text \<open>
  \<open>calculateOverlap\<close>. The default arguments of the source (hours 9 to 18 for either
  city, the current date) are left to the caller.
\<close>

definition calculateOverlap ::
  "tzdata \<Rightarrow> City \<Rightarrow> City \<Rightarrow> WorkingHours \<Rightarrow> WorkingHours \<Rightarrow> int option
     \<Rightarrow> js_error + OverlapResult" where
  "calculateOverlap db cityA cityB workingHoursA workingHoursB date =
     (if timezone cityA = [] then
        Inl (Error ''Invalid city A: Missing timezone information'')
      else if timezone cityB = [] then
        Inl (Error ''Invalid city B: Missing timezone information'')
      else if \<not> isValidTimezone db (timezone cityA) then
        Inl (Error (''Unable to determine timezone for '' @ name cityA
                      @ ''. Please try another city.''))
      else if \<not> isValidTimezone db (timezone cityB) then
        Inl (Error (''Unable to determine timezone for '' @ name cityB
                      @ ''. Please try another city.''))
      else if \<not> isValidWorkingHours workingHoursA then
        Inl (Error ''Invalid working hours for City A'')
      else if \<not> isValidWorkingHours workingHoursB then
        Inl (Error ''Invalid working hours for City B'')
      else case calculateOverlap_try db cityA cityB workingHoursA workingHoursB date of
             Inl e \<Rightarrow> Inl (calculateOverlap_catch e)
           | Inr r \<Rightarrow> Inr r)"

section \<open>MeetingSuggester\<close>

text \<open>
  \<open>categorizeMeetingTime\<close>. When the library does not know the zone, the local time is
  invalid, its hour and minute are \<open>NaN\<close>, every comparison is false and the last
  \<open>return\<close> is reached.
\<close>

definition categorizeMeetingTime ::
  "tzdata \<Rightarrow> DateTime \<Rightarrow> WorkingHours \<Rightarrow> string \<Rightarrow> MeetingQuality" where
  "categorizeMeetingTime db time workingHours tz =
     (case dt_setZone db tz time of
        None \<Rightarrow> AcceptableTime
      | Some localTime \<Rightarrow>
          (let hour = dt_hour localTime;
               minute = dt_minute localTime;
               timeInMinutes = (of_int (hour * 60 + minute) :: rat);
               startMinutes = startHour workingHours * 60;
               endMinutes = endHour workingHours * 60;
               totalMinutes = endMinutes - startMinutes
           in if timeInMinutes < startMinutes \<or> timeInMinutes \<ge> endMinutes
              then NotRecommended
              else let positionInDay = (timeInMinutes - startMinutes) / totalMinutes
                   in if positionInDay \<ge> 1 / 3 \<and> positionInDay < 2 / 3
                      then PerfectTime
                      else AcceptableTime))"

definition qualityOrder :: "MeetingQuality list" where
  "qualityOrder = [PerfectTime, AcceptableTime, NotRecommended]"

text \<open>\<open>Array.prototype.indexOf\<close>: the first position of the value, or \<open>-1\<close>.\<close>

fun indexOf :: "'a list \<Rightarrow> 'a \<Rightarrow> int" where
  "indexOf [] v = -1"
| "indexOf (x # xs) v =
     (if x = v then 0 else (let i = indexOf xs v in if i < 0 then -1 else i + 1))"

text \<open>
  \<open>combineQualities\<close>. Both indices lie in \<open>{0, 1, 2}\<close> (lemma \<open>indexOf_qualityOrder\<close>),
  so the read of \<open>qualityOrder\<close> is in range.
\<close>

definition combineQualities :: "MeetingQuality \<Rightarrow> MeetingQuality \<Rightarrow> MeetingQuality" where
  "combineQualities qualityA qualityB =
     (let indexA = indexOf qualityOrder qualityA;
          indexB = indexOf qualityOrder qualityB
      in qualityOrder ! nat (max indexA indexB))"

text \<open>
  The \<open>while\<close> loop of \<open>generateSuggestions\<close>, from the current pair of date-times on.
  \<open>endA\<close> is \<open>overlap.overlapInCityA.end\<close>.
\<close>

function suggestionLoop ::
  "tzdata \<Rightarrow> City \<Rightarrow> City \<Rightarrow> WorkingHours \<Rightarrow> WorkingHours \<Rightarrow> DateTime
     \<Rightarrow> DateTime \<Rightarrow> DateTime \<Rightarrow> MeetingSuggestion list" where
  "suggestionLoop db cityA cityB workingHoursA workingHoursB endA currentTimeA currentTimeB =
     (if ts currentTimeA < ts endA then
        (let qualityA = categorizeMeetingTime db currentTimeA workingHoursA (timezone cityA);
             qualityB = categorizeMeetingTime db currentTimeB workingHoursB (timezone cityB);
             quality = combineQualities qualityA qualityB;
             remainingDuration = dt_diff_minutes endA currentTimeA;
             durationMinutes = min remainingDuration 60
         in \<lparr>timeInCityA = currentTimeA, timeInCityB = currentTimeB,
              quality = quality, durationMinutes = durationMinutes\<rparr>
            # suggestionLoop db cityA cityB workingHoursA workingHoursB endA
                (dt_plus_minutes currentTimeA 30) (dt_plus_minutes currentTimeB 30))
      else [])"
  by pat_completeness auto
termination
  by (relation "measure (\<lambda>(db, cityA, cityB, hA, hB, endA, curA, curB).
        nat (ts endA - ts curA))") (auto simp: dt_plus_minutes_def)

declare suggestionLoop.simps [simp del]

definition generateSuggestions ::
  "tzdata \<Rightarrow> OverlapResult \<Rightarrow> City \<Rightarrow> City \<Rightarrow> WorkingHours \<Rightarrow> WorkingHours
     \<Rightarrow> MeetingSuggestion list" where
  "generateSuggestions db overlap cityA cityB workingHoursA workingHoursB =
     (if \<not> hasOverlap overlap then []
      else case overlapInCityA overlap of
        None \<Rightarrow> []
      | Some inA \<Rightarrow>
          (case overlapInCityB overlap of
             None \<Rightarrow> []
           | Some inB \<Rightarrow>
               suggestionLoop db cityA cityB workingHoursA workingHoursB (rangeEnd inA)
                 (rangeStart inA) (rangeStart inB)))"

text \<open>
  \<open>findLargestOverlap\<close>: \<open>reduce\<close> without an initial value starts from the first
  element and visits the others in order; \<open>largerOf\<close> is the function it is given.
\<close>

definition largerOf :: "MeetingSuggestion \<Rightarrow> MeetingSuggestion \<Rightarrow> MeetingSuggestion" where
  "largerOf largest current =
     (if durationMinutes current > durationMinutes largest then current else largest)"

definition findLargestOverlap :: "MeetingSuggestion list \<Rightarrow> MeetingSuggestion option" where
  "findLargestOverlap suggestions =
     (case suggestions of
        [] \<Rightarrow> None
      | first # rest \<Rightarrow> Some (foldl largerOf first rest))"

section \<open>Notions of the specification\<close>

text \<open>The ordering \<open>Perfect < Acceptable < NotRecommended\<close> of the specification.\<close>

fun qualityRank :: "MeetingQuality \<Rightarrow> nat" where
  "qualityRank PerfectTime = 0"
| "qualityRank AcceptableTime = 1"
| "qualityRank NotRecommended = 2"


text \<open>
  The malformed ranges of the specification: a bound that is not an integer or lies
  outside \<open>[0, 23]\<close>, or equal bounds.
\<close>

definition malformedRange :: "WorkingHours \<Rightarrow> bool" where
  "malformedRange hours =
     (of_int \<lfloor>startHour hours\<rfloor> \<noteq> startHour hours \<or> of_int \<lfloor>endHour hours\<rfloor> \<noteq> endHour hours \<or>
      startHour hours < 0 \<or> startHour hours > 23 \<or>
      endHour hours < 0 \<or> endHour hours > 23 \<or>
      startHour hours = endHour hours)"



text \<open>The result of \<open>calculateOverlap\<close> when the ranges do not intersect.\<close>

definition noOverlap :: OverlapResult where
  "noOverlap = \<lparr>hasOverlap = False, overlapInUTC = None, overlapInCityA = None,
                 overlapInCityB = None, overlapMinutes = None\<rparr>"

section \<open>Sample data\<close>

text \<open>
  Zone data for a few zones, with the clock changes of the year 2024, and inputs on which
  the theorems below are exercised. The instant \<open>1718452800000\<close> used there is noon UTC of
  15 June 2024.
\<close>

definition zoneNewYork :: Zone where
  "zoneNewYork = \<lparr>zoneName = ''America/New_York'',
     offset = (\<lambda>t. if 1710054000000 \<le> t \<and> t < 1730613600000 then -240 else -300)\<rparr>"

definition zoneLondon :: Zone where
  "zoneLondon = \<lparr>zoneName = ''Europe/London'',
     offset = (\<lambda>t. if 1711846800000 \<le> t \<and> t < 1729990800000 then 60 else 0)\<rparr>"

definition zoneTokyo :: Zone where
  "zoneTokyo = \<lparr>zoneName = ''Asia/Tokyo'', offset = (\<lambda>t. 540)\<rparr>"

definition sampleZones :: tzdata where
  "sampleZones tz =
     (if tz = ''America/New_York'' then Some zoneNewYork
      else if tz = ''Europe/London'' then Some zoneLondon
      else if tz = ''Asia/Tokyo'' then Some zoneTokyo
      else if tz = ''UTC'' then Some utcZone
      else None)"

definition cityNewYork :: City where
  "cityNewYork = \<lparr>name = ''New York'', country = ''USA'', timezone = ''America/New_York''\<rparr>"

definition cityLondon :: City where
  "cityLondon = \<lparr>name = ''London'', country = ''UK'', timezone = ''Europe/London''\<rparr>"

definition cityTokyo :: City where
  "cityTokyo = \<lparr>name = ''Tokyo'', country = ''Japan'', timezone = ''Asia/Tokyo''\<rparr>"

definition nineToSix :: WorkingHours where
  "nineToSix = \<lparr>startHour = 9, endHour = 18\<rparr>"

text \<open>
  An overlap of 45 minutes on 15 January 2024: 09:00 to 09:45 in New York, 14:00 to 14:45
  in London.
\<close>

definition overlap45 :: OverlapResult where
  "overlap45 =
     \<lparr>hasOverlap = True,
      overlapInUTC = Some \<lparr>rangeStart = \<lparr>ts = 1705327200000, zone = utcZone\<rparr>,
                           rangeEnd = \<lparr>ts = 1705329900000, zone = utcZone\<rparr>\<rparr>,
      overlapInCityA = Some \<lparr>rangeStart = \<lparr>ts = 1705327200000, zone = zoneNewYork\<rparr>,
                             rangeEnd = \<lparr>ts = 1705329900000, zone = zoneNewYork\<rparr>\<rparr>,
      overlapInCityB = Some \<lparr>rangeStart = \<lparr>ts = 1705327200000, zone = zoneLondon\<rparr>,
                             rangeEnd = \<lparr>ts = 1705329900000, zone = zoneLondon\<rparr>\<rparr>,
      overlapMinutes = Some 45\<rparr>"

definition suggestion :: "int \<Rightarrow> rat \<Rightarrow> MeetingSuggestion" where
  "suggestion t d =
     \<lparr>timeInCityA = \<lparr>ts = t, zone = utcZone\<rparr>, timeInCityB = \<lparr>ts = t, zone = utcZone\<rparr>,
      quality = PerfectTime, durationMinutes = d\<rparr>"

text \<open>Working hours from 22:00 to 06:00, across midnight.\<close>

definition tenToSixNight :: WorkingHours where
  "tenToSixNight = \<lparr>startHour = 22, endHour = 6\<rparr>"

text \<open>Working hours from 09:30 to 17:00.\<close>

definition halfPastNineToFive :: WorkingHours where
  "halfPastNineToFive = \<lparr>startHour = 19 / 2, endHour = 17\<rparr>"

section \<open>Selecting the largest suggestion\<close>

lemma foldl_largerOf:
  "\<exists>pre post. x # rest = pre @ foldl largerOf x rest # post \<and>
      (\<forall>s \<in> set pre. durationMinutes s < durationMinutes (foldl largerOf x rest)) \<and>
      (\<forall>s \<in> set post. durationMinutes s \<le> durationMinutes (foldl largerOf x rest))"
proof (induction rest rule: rev_induct)
  case Nil
  show ?case by (rule exI[of _ "[]"], rule exI[of _ "[]"]) simp
next
  case (snoc y rest)
  let ?r = "foldl largerOf x rest"
  from snoc obtain pre post where dec: "x # rest = pre @ ?r # post"
    and lt: "\<forall>s \<in> set pre. durationMinutes s < durationMinutes ?r"
    and le: "\<forall>s \<in> set post. durationMinutes s \<le> durationMinutes ?r"
    by blast
  have step: "foldl largerOf x (rest @ [y]) = largerOf ?r y" by simp
  show ?case
  proof (cases "durationMinutes y > durationMinutes ?r")
    case True
    then have r': "largerOf ?r y = y" by (simp add: largerOf_def)
    have "\<forall>s \<in> set (x # rest). durationMinutes s < durationMinutes y"
    proof
      fix s assume "s \<in> set (x # rest)"
      then have "s \<in> set pre \<or> s = ?r \<or> s \<in> set post" unfolding dec by auto
      then have "durationMinutes s \<le> durationMinutes ?r" using lt le by force
      with True show "durationMinutes s < durationMinutes y" by simp
    qed
    moreover have "x # rest @ [y] = (x # rest) @ y # []" by simp
    ultimately show ?thesis unfolding step r'
      by (intro exI[of _ "x # rest"] exI[of _ "[]"]) simp
  next
    case False
    then have r': "largerOf ?r y = ?r" by (simp add: largerOf_def)
    have "x # rest @ [y] = pre @ ?r # (post @ [y])" using dec by simp
    moreover have "\<forall>s \<in> set (post @ [y]). durationMinutes s \<le> durationMinutes ?r"
      using le False by auto
    ultimately show ?thesis unfolding step r' using lt
      by (intro exI[of _ pre] exI[of _ "post @ [y]"]) simp
  qed
qed

text \<open>
  Claim C8. \<open>findLargestOverlap\<close> returns nothing exactly on the empty list. On any other
  list it returns a member \<open>r\<close> of the list such that no member has a larger
  \<open>durationMinutes\<close>, and every member before \<open>r\<close> has a strictly smaller one: among
  equally long suggestions the first is returned.
\<close>

theorem findLargestOverlap_first_maximum:
  "(findLargestOverlap suggestions = None \<longleftrightarrow> suggestions = []) \<and>
   (\<forall>r. findLargestOverlap suggestions = Some r \<longrightarrow>
      r \<in> set suggestions \<and>
      (\<forall>s \<in> set suggestions. durationMinutes s \<le> durationMinutes r) \<and>
      (\<exists>pre post. suggestions = pre @ r # post \<and>
         (\<forall>s \<in> set pre. durationMinutes s < durationMinutes r)))"
proof (cases suggestions)
  case Nil
  then show ?thesis by (simp add: findLargestOverlap_def)
next
  case (Cons x rest)
  let ?r = "foldl largerOf x rest"
  have res: "findLargestOverlap suggestions = Some ?r"
    using Cons by (simp add: findLargestOverlap_def)
  from foldl_largerOf[of x rest] obtain pre post where dec: "x # rest = pre @ ?r # post"
    and lt: "\<forall>s \<in> set pre. durationMinutes s < durationMinutes ?r"
    and le: "\<forall>s \<in> set post. durationMinutes s \<le> durationMinutes ?r"
    by blast
  have mem: "?r \<in> set suggestions" unfolding Cons dec by simp
  have mx: "\<forall>s \<in> set suggestions. durationMinutes s \<le> durationMinutes ?r"
  proof
    fix s assume "s \<in> set suggestions"
    then have "s \<in> set pre \<or> s = ?r \<or> s \<in> set post" unfolding Cons dec by auto
    then show "durationMinutes s \<le> durationMinutes ?r" using lt le by force
  qed
  have first: "\<exists>pre post. suggestions = pre @ ?r # post \<and>
      (\<forall>s \<in> set pre. durationMinutes s < durationMinutes ?r)"
    using dec lt unfolding Cons by blast
  show ?thesis using res mem mx first Cons by simp
qed

text \<open>
  On durations 30, 60, 60, 45 the second suggestion is returned, not the third.
\<close>

theorem findLargestOverlap_first_maximum_witness:
  "findLargestOverlap [suggestion 1 30, suggestion 2 60, suggestion 3 60, suggestion 4 45]
     = Some (suggestion 2 60) \<and>
   suggestion 2 60 \<in> set [suggestion 1 30, suggestion 2 60, suggestion 3 60, suggestion 4 45] \<and>
   durationMinutes (suggestion 3 60) \<le> durationMinutes (suggestion 2 60)"
proof -
  let ?xs = "[suggestion 1 30, suggestion 2 60, suggestion 3 60, suggestion 4 45]"
  have res: "findLargestOverlap ?xs = Some (suggestion 2 60)"
    by (simp add: findLargestOverlap_def largerOf_def suggestion_def)
  have third: "suggestion 3 60 \<in> set ?xs" by simp
  from findLargestOverlap_first_maximum[of ?xs] res
  have "suggestion 2 60 \<in> set ?xs \<and>
        (\<forall>s \<in> set ?xs. durationMinutes s \<le> durationMinutes (suggestion 2 60))"
    by blast
  with third res show ?thesis by blast
qed

section \<open>Combining and categorising\<close>

lemma indexOf_qualityOrder: "indexOf qualityOrder q = int (qualityRank q)"
  by (cases q) (simp_all add: qualityOrder_def)

lemma combineQualities_rank:
  "combineQualities qA qB = (if qualityRank qB \<le> qualityRank qA then qA else qB)"
  by (cases qA; cases qB) (simp_all add: combineQualities_def indexOf_qualityOrder qualityOrder_def)





section \<open>The suggestions of an overlap window\<close>

lemma dt_plus_minutes_0: "dt_plus_minutes c 0 = c"
  by (simp add: dt_plus_minutes_def)

lemma dt_plus_minutes_step:
  "dt_plus_minutes (dt_plus_minutes c 30) (30 * int k) = dt_plus_minutes c (30 * int (Suc k))"
  by (simp add: dt_plus_minutes_def algebra_simps)

lemma suggestionLoop_length:
  "k < length (suggestionLoop db cityA cityB hA hB endA curA curB) \<longleftrightarrow>
   ts curA + 1800000 * int k < ts endA"
proof (induction db cityA cityB hA hB endA curA curB arbitrary: k rule: suggestionLoop.induct)
  case (1 db cityA cityB hA hB endA curA curB)
  show ?case
  proof (cases "ts curA < ts endA")
    case True
    note IH = "1.IH"[OF True refl refl refl refl refl]
    show ?thesis
    proof (cases k)
      case 0
      with True show ?thesis by (subst suggestionLoop.simps) (simp add: Let_def)
    next
      case (Suc j)
      have "k < length (suggestionLoop db cityA cityB hA hB endA curA curB) \<longleftrightarrow>
            j < length (suggestionLoop db cityA cityB hA hB endA
                          (dt_plus_minutes curA 30) (dt_plus_minutes curB 30))"
        using True Suc by (subst suggestionLoop.simps) (simp add: Let_def)
      also have "\<dots> \<longleftrightarrow> ts (dt_plus_minutes curA 30) + 1800000 * int j < ts endA"
        by (rule IH)
      also have "\<dots> \<longleftrightarrow> ts curA + 1800000 * int k < ts endA"
        using Suc by (simp add: dt_plus_minutes_def algebra_simps)
      finally show ?thesis .
    qed
  next
    case False
    then have "suggestionLoop db cityA cityB hA hB endA curA curB = []"
      by (subst suggestionLoop.simps) simp
    moreover have "\<not> ts curA + 1800000 * int k < ts endA" using False by simp
    ultimately show ?thesis by simp
  qed
qed

lemma suggestionLoop_nth:
  "k < length (suggestionLoop db cityA cityB hA hB endA curA curB) \<Longrightarrow>
   suggestionLoop db cityA cityB hA hB endA curA curB ! k =
     \<lparr>timeInCityA = dt_plus_minutes curA (30 * int k),
      timeInCityB = dt_plus_minutes curB (30 * int k),
      quality = combineQualities
        (categorizeMeetingTime db (dt_plus_minutes curA (30 * int k)) hA (timezone cityA))
        (categorizeMeetingTime db (dt_plus_minutes curB (30 * int k)) hB (timezone cityB)),
      durationMinutes = min (dt_diff_minutes endA (dt_plus_minutes curA (30 * int k))) 60\<rparr>"
proof (induction db cityA cityB hA hB endA curA curB arbitrary: k rule: suggestionLoop.induct)
  case (1 db cityA cityB hA hB endA curA curB)
  show ?case
  proof (cases "ts curA < ts endA")
    case True
    note IH = "1.IH"[OF True refl refl refl refl refl]
    have unfold: "suggestionLoop db cityA cityB hA hB endA curA curB =
        \<lparr>timeInCityA = curA, timeInCityB = curB,
         quality = combineQualities (categorizeMeetingTime db curA hA (timezone cityA))
                     (categorizeMeetingTime db curB hB (timezone cityB)),
         durationMinutes = min (dt_diff_minutes endA curA) 60\<rparr>
        # suggestionLoop db cityA cityB hA hB endA
            (dt_plus_minutes curA 30) (dt_plus_minutes curB 30)"
      using True by (subst suggestionLoop.simps) (simp add: Let_def)
    show ?thesis
    proof (cases k)
      case 0
      then show ?thesis unfolding unfold by (simp add: dt_plus_minutes_0)
    next
      case (Suc j)
      with "1.prems" have "j < length (suggestionLoop db cityA cityB hA hB endA
                          (dt_plus_minutes curA 30) (dt_plus_minutes curB 30))"
        unfolding unfold by simp
      from IH[OF this] show ?thesis
        unfolding unfold Suc nth_Cons_Suc dt_plus_minutes_step .
    qed
  next
    case False
    then have "suggestionLoop db cityA cityB hA hB endA curA curB = []"
      by (subst suggestionLoop.simps) simp
    with "1.prems" show ?thesis by simp
  qed
qed

lemma suggestionLoop_quality:
  "s \<in> set (suggestionLoop db cityA cityB hA hB endA curA curB) \<Longrightarrow>
   quality s = combineQualities (categorizeMeetingTime db (timeInCityA s) hA (timezone cityA))
                 (categorizeMeetingTime db (timeInCityB s) hB (timezone cityB))"
proof -
  assume "s \<in> set (suggestionLoop db cityA cityB hA hB endA curA curB)"
  then obtain k where k: "k < length (suggestionLoop db cityA cityB hA hB endA curA curB)"
    and s: "s = suggestionLoop db cityA cityB hA hB endA curA curB ! k"
    by (auto simp: in_set_conv_nth)
  show ?thesis unfolding s suggestionLoop_nth[OF k] by simp
qed

lemma generateSuggestions_quality:
  "s \<in> set (generateSuggestions db overlap cityA cityB hA hB) \<Longrightarrow>
   quality s = combineQualities (categorizeMeetingTime db (timeInCityA s) hA (timezone cityA))
                 (categorizeMeetingTime db (timeInCityB s) hB (timezone cityB))"
  by (auto simp: generateSuggestions_def suggestionLoop_quality split: if_splits option.splits)

text \<open>
  Claim C4. \<open>generateSuggestions\<close> returns the empty list when the overlap has
  \<open>hasOverlap\<close> false. For an overlap with both local windows it makes one suggestion for
  each step \<open>k\<close> with \<open>start + k * 30 min < end\<close> on the A side and no other; the
  \<open>k\<close>-th suggestion holds the start of the A window and the start of the B window, both
  moved on by \<open>k * 30\<close> minutes, and its \<open>durationMinutes\<close> is the smaller of 60 and the
  minutes left to the end of the A window. A window of 45 minutes gives two suggestions,
  the first of 45 minutes.
\<close>

theorem generateSuggestions_steps:
  "(\<not> hasOverlap overlap \<longrightarrow> generateSuggestions db overlap cityA cityB hA hB = []) \<and>
   (hasOverlap overlap \<and> overlapInCityA overlap = Some inA \<and> overlapInCityB overlap = Some inB
    \<longrightarrow>
      (\<forall>k. k < length (generateSuggestions db overlap cityA cityB hA hB) \<longleftrightarrow>
           ts (rangeStart inA) + 1800000 * int k < ts (rangeEnd inA)) \<and>
      (\<forall>k < length (generateSuggestions db overlap cityA cityB hA hB).
         generateSuggestions db overlap cityA cityB hA hB ! k =
           \<lparr>timeInCityA = dt_plus_minutes (rangeStart inA) (30 * int k),
            timeInCityB = dt_plus_minutes (rangeStart inB) (30 * int k),
            quality = combineQualities
              (categorizeMeetingTime db (dt_plus_minutes (rangeStart inA) (30 * int k)) hA
                 (timezone cityA))
              (categorizeMeetingTime db (dt_plus_minutes (rangeStart inB) (30 * int k)) hB
                 (timezone cityB)),
            durationMinutes =
              min (dt_diff_minutes (rangeEnd inA)
                     (dt_plus_minutes (rangeStart inA) (30 * int k))) 60\<rparr>) \<and>
      (ts (rangeEnd inA) - ts (rangeStart inA) = 45 * 60000 \<longrightarrow>
         length (generateSuggestions db overlap cityA cityB hA hB) = 2 \<and>
         durationMinutes (generateSuggestions db overlap cityA cityB hA hB ! 0) = 45))"
proof (intro conjI impI)
  assume "\<not> hasOverlap overlap"
  then show "generateSuggestions db overlap cityA cityB hA hB = []"
    by (simp add: generateSuggestions_def)
next
  assume ov: "hasOverlap overlap \<and> overlapInCityA overlap = Some inA \<and>
              overlapInCityB overlap = Some inB"
  let ?loop = "suggestionLoop db cityA cityB hA hB (rangeEnd inA) (rangeStart inA) (rangeStart inB)"
  have gen: "generateSuggestions db overlap cityA cityB hA hB = ?loop"
    using ov by (simp add: generateSuggestions_def)
  show len: "\<forall>k. k < length (generateSuggestions db overlap cityA cityB hA hB) \<longleftrightarrow>
           ts (rangeStart inA) + 1800000 * int k < ts (rangeEnd inA)"
    unfolding gen by (simp add: suggestionLoop_length)
  show "\<forall>k < length (generateSuggestions db overlap cityA cityB hA hB).
         generateSuggestions db overlap cityA cityB hA hB ! k =
           \<lparr>timeInCityA = dt_plus_minutes (rangeStart inA) (30 * int k),
            timeInCityB = dt_plus_minutes (rangeStart inB) (30 * int k),
            quality = combineQualities
              (categorizeMeetingTime db (dt_plus_minutes (rangeStart inA) (30 * int k)) hA
                 (timezone cityA))
              (categorizeMeetingTime db (dt_plus_minutes (rangeStart inB) (30 * int k)) hB
                 (timezone cityB)),
            durationMinutes =
              min (dt_diff_minutes (rangeEnd inA)
                     (dt_plus_minutes (rangeStart inA) (30 * int k))) 60\<rparr>"
    unfolding gen using suggestionLoop_nth by blast
  {
    assume d: "ts (rangeEnd inA) - ts (rangeStart inA) = 45 * 60000"
    have l1: "1 < length ?loop" unfolding suggestionLoop_length using d by simp
    have l2: "\<not> 2 < length ?loop" unfolding suggestionLoop_length using d by simp
    have l: "length ?loop = 2" using l1 l2 by simp
    have z: "0 < length ?loop" using l by simp
    have "durationMinutes (?loop ! 0) = 45"
      unfolding suggestionLoop_nth[OF z] using d
      by (simp add: dt_plus_minutes_0 dt_diff_minutes_def)
    with l show "length (generateSuggestions db overlap cityA cityB hA hB) = 2"
      and "durationMinutes (generateSuggestions db overlap cityA cityB hA hB ! 0) = 45"
      unfolding gen by simp_all
  }
qed

text \<open>The 45 minute overlap of the sample data.\<close>

theorem generateSuggestions_steps_witness:
  "length (generateSuggestions sampleZones overlap45 cityNewYork cityLondon nineToSix nineToSix) = 2 \<and>
   durationMinutes
     (generateSuggestions sampleZones overlap45 cityNewYork cityLondon nineToSix nineToSix ! 0) = 45 \<and>
   hasOverlap overlap45"
proof -
  have h: "hasOverlap overlap45 \<and>
      overlapInCityA overlap45 = Some \<lparr>rangeStart = \<lparr>ts = 1705327200000, zone = zoneNewYork\<rparr>,
                                       rangeEnd = \<lparr>ts = 1705329900000, zone = zoneNewYork\<rparr>\<rparr> \<and>
      overlapInCityB overlap45 = Some \<lparr>rangeStart = \<lparr>ts = 1705327200000, zone = zoneLondon\<rparr>,
                                       rangeEnd = \<lparr>ts = 1705329900000, zone = zoneLondon\<rparr>\<rparr>"
    by (simp add: overlap45_def)
  have d: "ts (rangeEnd \<lparr>rangeStart = \<lparr>ts = 1705327200000, zone = zoneNewYork\<rparr>,
                          rangeEnd = \<lparr>ts = 1705329900000, zone = zoneNewYork\<rparr>\<rparr>)
           - ts (rangeStart \<lparr>rangeStart = \<lparr>ts = 1705327200000, zone = zoneNewYork\<rparr>,
                            rangeEnd = \<lparr>ts = 1705329900000, zone = zoneNewYork\<rparr>\<rparr>)
           = 45 * 60000"
    by simp
  from generateSuggestions_steps[of overlap45 sampleZones cityNewYork cityLondon nineToSix nineToSix
      "\<lparr>rangeStart = \<lparr>ts = 1705327200000, zone = zoneNewYork\<rparr>,
        rangeEnd = \<lparr>ts = 1705329900000, zone = zoneNewYork\<rparr>\<rparr>"
      "\<lparr>rangeStart = \<lparr>ts = 1705327200000, zone = zoneLondon\<rparr>,
        rangeEnd = \<lparr>ts = 1705329900000, zone = zoneLondon\<rparr>\<rparr>"] h d
  show ?thesis by blast
qed

text \<open>
  Claim C9. \<open>combineQualities\<close> returns the worse of its arguments in the ordering
  \<open>Perfect < Acceptable < NotRecommended\<close>; it is commutative and idempotent, its result
  is never better than either argument, and the quality of every suggestion is the
  combination of the categories of its two date-times.
\<close>

theorem combineQualities_worse:
  "combineQualities qA qB = (if qualityRank qB \<le> qualityRank qA then qA else qB) \<and>
   combineQualities qA qB = combineQualities qB qA \<and>
   combineQualities qA qA = qA \<and>
   qualityRank qA \<le> qualityRank (combineQualities qA qB) \<and>
   qualityRank qB \<le> qualityRank (combineQualities qA qB) \<and>
   (\<forall>s \<in> set (generateSuggestions db overlap cityA cityB hA hB).
      quality s = combineQualities (categorizeMeetingTime db (timeInCityA s) hA (timezone cityA))
                    (categorizeMeetingTime db (timeInCityB s) hB (timezone cityB)))"
proof -
  have comm: "combineQualities qA qB = combineQualities qB qA"
    by (cases qA; cases qB) (simp_all add: combineQualities_rank)
  show ?thesis
    using comm generateSuggestions_quality[of _ db overlap cityA cityB hA hB]
    by (simp add: combineQualities_rank)
qed

text \<open>Perfect and not recommended combine to not recommended, in either order.\<close>

theorem combineQualities_worse_witness:
  "combineQualities PerfectTime NotRecommended = NotRecommended \<and>
   combineQualities NotRecommended PerfectTime = NotRecommended \<and>
   quality (generateSuggestions sampleZones overlap45 cityNewYork cityLondon nineToSix nineToSix ! 0)
     = combineQualities
         (categorizeMeetingTime sampleZones
            (timeInCityA (generateSuggestions sampleZones overlap45 cityNewYork cityLondon
                            nineToSix nineToSix ! 0))
            nineToSix (timezone cityNewYork))
         (categorizeMeetingTime sampleZones
            (timeInCityB (generateSuggestions sampleZones overlap45 cityNewYork cityLondon
                            nineToSix nineToSix ! 0))
            nineToSix (timezone cityLondon))"
proof -
  let ?gen = "generateSuggestions sampleZones overlap45 cityNewYork cityLondon nineToSix nineToSix"
  have "length ?gen = 2" by code_simp
  then have mem: "?gen ! 0 \<in> set ?gen" by simp
  note inst = combineQualities_worse[of PerfectTime NotRecommended sampleZones overlap45
      cityNewYork cityLondon nineToSix nineToSix]
  from inst have a: "combineQualities PerfectTime NotRecommended = NotRecommended" by simp
  from inst have "combineQualities PerfectTime NotRecommended
      = combineQualities NotRecommended PerfectTime" by blast
  with a have b: "combineQualities NotRecommended PerfectTime = NotRecommended" by simp
  from inst mem have c: "quality (?gen ! 0) = combineQualities
         (categorizeMeetingTime sampleZones (timeInCityA (?gen ! 0)) nineToSix (timezone cityNewYork))
         (categorizeMeetingTime sampleZones (timeInCityB (?gen ! 0)) nineToSix (timezone cityLondon))"
    by blast
  from a b c show ?thesis by blast
qed



section \<open>The overlap engine\<close>

lemma isValidTimezone_known:
  "isValidTimezone db tz \<longleftrightarrow> tz \<noteq> [] \<and> (\<exists>z. db tz = Some z \<and> zoneName z = tz)"
  by (auto simp: isValidTimezone_def split: option.splits)

lemma convertToUTC_same_zone:
  assumes "isValidTimezone db tz" and "db tz = Some z" and "zone t = z"
  shows "convertToUTC db (Some t) tz = Inr (t\<lparr>zone := utcZone\<rparr>)"
  using assms by (simp add: convertToUTC_def dt_setZone_keepLocalTime_def dt_toUTC_def)

lemma convertFromUTC_valid:
  assumes "isValidTimezone db tz" and "db tz = Some z"
  shows "convertFromUTC db (Some t) tz = Inr \<lparr>ts = ts t, zone = z\<rparr>"
  using assms by (simp add: convertFromUTC_def dt_setZone_def dt_toUTC_def)

lemma convertToUTC_invalid_date:
  assumes "isValidTimezone db tz"
  shows "convertToUTC db None tz = Inl (Error ''Invalid DateTime object provided for conversion'')"
  using assms by (simp add: convertToUTC_def)

lemma workingHoursToUTC_invalid_date:
  assumes v: "isValidTimezone db tz"
  shows "workingHoursToUTC db hours tz None =
           Inl (Error ''Invalid DateTime object provided for conversion'')"
  unfolding workingHoursToUTC_def fromJSDate_setZone_def Let_def
  by (simp add: convertToUTC_invalid_date[OF v])

subsection \<open>Date-times within the range\<close>

lemma inDateRange_between:
  "inDateRange a \<Longrightarrow> inDateRange b \<Longrightarrow> a \<le> t \<Longrightarrow> t \<le> b \<Longrightarrow> inDateRange t"
  by (simp add: inDateRange_def)

lemma offsetAt_Some:
  "inDateRange t \<Longrightarrow> inDateRange (t + offset z t * 60000) \<Longrightarrow> offsetAt z t = Some (offset z t)"
  by (simp add: offsetAt_def mult.commute)


lemma fixOffset_cases:
  "fst (fixOffset z w o1) =
     (if o1 = offset z (w - o1 * 60000) then w - o1 * 60000
      else if offset z (w - o1 * 60000) = offset z (w - offset z (w - o1 * 60000) * 60000)
           then w - offset z (w - o1 * 60000) * 60000
      else w - min (offset z (w - o1 * 60000))
                   (offset z (w - offset z (w - o1 * 60000) * 60000)) * 60000)"
  by (simp add: fixOffset_def Let_def algebra_simps)

lemma fixOffset_band:
  assumes band: "\<forall>t. lo \<le> offset z t \<and> offset z t \<le> hi"
      and guess: "lo \<le> o1" "o1 \<le> hi"
  shows "w - hi * 60000 \<le> fst (fixOffset z w o1) \<and> fst (fixOffset z w o1) \<le> w - lo * 60000"
proof -
  define o2 where "o2 = offset z (w - o1 * 60000)"
  define o3 where "o3 = offset z (w - o2 * 60000)"
  have b2: "lo \<le> o2" "o2 \<le> hi" using band unfolding o2_def by simp_all
  have b3: "lo \<le> o3" "o3 \<le> hi" using band unfolding o3_def by simp_all
  have "fst (fixOffset z w o1) =
          (if o1 = o2 then w - o1 * 60000
           else if o2 = o3 then w - o2 * 60000
           else w - min o2 o3 * 60000)"
    unfolding fixOffset_cases o2_def o3_def by simp
  then show ?thesis using guess b2 b3 by (auto simp: min_def)
qed

lemma resolveWallClock_safe:
  assumes bnd: "\<forall>t. - 1440 \<le> offset z t \<and> offset z t \<le> 1440"
      and g: "- 1440 \<le> o1" "o1 \<le> 1440"
      and r: "inDateRange (w - 172800000)" "inDateRange (w + 172800000)"
  shows "resolveWallClock z w o1 = Some \<lparr>ts = fst (fixOffset z w o1), zone = z\<rparr>"
proof -
  have near: "offsetAt z t = Some (offset z t)" if "w - 86400000 \<le> t" "t \<le> w + 86400000" for t
  proof -
    have o: "- 1440 \<le> offset z t" "offset z t \<le> 1440" using bnd by simp_all
    have "inDateRange t"
      by (rule inDateRange_between[OF r]) (use that in simp_all)
    moreover have "inDateRange (t + offset z t * 60000)"
      by (rule inDateRange_between[OF r]) (use that o in simp_all)
    ultimately show ?thesis by (rule offsetAt_Some)
  qed
  have w: "inDateRange w" by (rule inDateRange_between[OF r]) simp_all
  define o2 where "o2 = offset z (w - o1 * 60000)"
  have b2: "- 1440 \<le> o2" "o2 \<le> 1440" using bnd unfolding o2_def by simp_all
  have g1: "offsetAt z (w - o1 * 60000) = Some o2"
    unfolding o2_def by (rule near) (use g in simp_all)
  have g2: "offsetAt z (w - o2 * 60000) = Some (offset z (w - o2 * 60000))"
    by (rule near) (use b2 in simp_all)
  have def: "fixOffsetDefined z w o1"
    using g1 g2 by (simp add: fixOffsetDefined_def Let_def algebra_simps)
  have res: "w - 1440 * 60000 \<le> fst (fixOffset z w o1) \<and> fst (fixOffset z w o1) \<le> w - (- 1440) * 60000"
    by (rule fixOffset_band[OF bnd g])
  have "offsetAt z (fst (fixOffset z w o1)) = Some (offset z (fst (fixOffset z w o1)))"
    by (rule near) (use res in simp_all)
  then show ?thesis using w def by (simp add: resolveWallClock_def newDateTime_def)
qed

lemma truncateNumber_bounds:
  assumes "0 \<le> q" and "q \<le> 24"
  shows "0 \<le> truncateNumber q \<and> truncateNumber q \<le> 24"
proof -
  have "\<lfloor>q\<rfloor> \<le> \<lfloor>24::rat\<rfloor>" using assms(2) by (rule floor_mono)
  then show ?thesis using assms(1) by (simp add: truncateNumber_def)
qed



lemma dt_set_hour_safe:
  assumes bnd: "\<forall>t. - 1440 \<le> offset (zone dt) t \<and> offset (zone dt) t \<le> 1440"
      and h: "0 \<le> truncateNumber h" "truncateNumber h \<le> 24"
      and r: "inDateRange (ts dt - 345600000)" "inDateRange (ts dt + 345600000)"
  shows "\<exists>r. dt_set_hour dt h = Some r \<and> zone r = zone dt \<and>
             ts dt - 259200000 \<le> ts r \<and> ts r \<le> ts dt + 259200000"
proof -
  define l where "l = localTS dt"
  define w where "w = l - l mod 86400000 + truncateNumber h * 3600000"
  have o: "- 1440 \<le> offset (zone dt) (ts dt)" "offset (zone dt) (ts dt) \<le> 1440"
    using bnd by simp_all
  have l: "ts dt - 86400000 \<le> l" "l \<le> ts dt + 86400000"
    using o unfolding l_def localTS_def by simp_all
  have m: "0 \<le> l mod 86400000" "l mod 86400000 < 86400000" by simp_all
  have w: "ts dt - 172800000 \<le> w" "w \<le> ts dt + 172800000"
    using l m h unfolding w_def by linarith+
  have rw: "inDateRange (w - 172800000)" "inDateRange (w + 172800000)"
    by (rule inDateRange_between[OF r]; use w in simp)+
  note res = resolveWallClock_safe[OF bnd o rw]
  have band: "w - 1440 * 60000 \<le> fst (fixOffset (zone dt) w (offset (zone dt) (ts dt))) \<and>
        fst (fixOffset (zone dt) w (offset (zone dt) (ts dt))) \<le> w - (- 1440) * 60000"
    by (rule fixOffset_band[OF bnd o])
  have "dt_set_hour dt h = Some \<lparr>ts = fst (fixOffset (zone dt) w (offset (zone dt) (ts dt))),
                                  zone = zone dt\<rparr>"
    using res unfolding dt_set_hour_def Let_def w_def l_def by simp
  then show ?thesis using band w by auto
qed

lemma dt_plus_days_safe:
  assumes bnd: "\<forall>t. - 1440 \<le> offset (zone dt) t \<and> offset (zone dt) t \<le> 1440"
      and r: "inDateRange (ts dt - 345600000)" "inDateRange (ts dt + 345600000)"
  shows "\<exists>r. dt_plus_days dt 1 = Some r \<and> zone r = zone dt"
proof -
  define w where "w = localTS dt + 1 * 86400000"
  have o: "- 1440 \<le> offset (zone dt) (ts dt)" "offset (zone dt) (ts dt) \<le> 1440"
    using bnd by simp_all
  have w: "ts dt \<le> w" "w \<le> ts dt + 172800000"
    using o unfolding w_def localTS_def by simp_all
  have rw: "inDateRange (w - 172800000)" "inDateRange (w + 172800000)"
    by (rule inDateRange_between[OF r]; use w in simp)+
  note res = resolveWallClock_safe[OF bnd o rw]
  then show ?thesis unfolding dt_plus_days_def w_def by simp
qed


lemma isValidWorkingHours_truncate:
  assumes "isValidWorkingHours hours"
  shows "0 \<le> truncateNumber (startHour hours)" "truncateNumber (startHour hours) \<le> 24"
        "0 \<le> truncateNumber (endHour hours)" "truncateNumber (endHour hours) \<le> 24"
  using assms truncateNumber_bounds[of "startHour hours"] truncateNumber_bounds[of "endHour hours"]
  by (simp_all add: isValidWorkingHours_def)

lemma workingHoursToUTC_chain:
  assumes v: "isValidTimezone db tz" and z: "db tz = Some z"
      and hv: "isValidWorkingHours hours"
      and bnd: "\<forall>t. - 1440 \<le> offset z t \<and> offset z t \<le> 1440"
      and dr: "inDateRange (d - 864000000)" "inDateRange (d + 864000000)"
  shows "\<exists>b s e0 e.
     dt_startOfDay \<lparr>ts = d, zone = z\<rparr> = Some b \<and> zone b = z \<and>
     dt_set_hour b (startHour hours) = Some s \<and> zone s = z \<and>
     dt_set_hour b (endHour hours) = Some e0 \<and> zone e0 = z \<and>
     (if endHour hours \<le> startHour hours then dt_plus_days e0 1 = Some e else e = e0) \<and>
     zone e = z \<and>
     workingHoursToUTC db hours tz (Some d) =
       Inr \<lparr>rangeStart = s\<lparr>zone := utcZone\<rparr>, rangeEnd = e\<lparr>zone := utcZone\<rparr>\<rparr>"
proof -
  note tr = isValidWorkingHours_truncate[OF hv]
  have rng: "inDateRange t" if "d - 864000000 \<le> t" "t \<le> d + 864000000" for t
    by (rule inDateRange_between[OF dr that])
  have od: "- 1440 \<le> offset z d" "offset z d \<le> 1440" using bnd by simp_all
  have new: "newDateTime d z = Some \<lparr>ts = d, zone = z\<rparr>"
  proof -
    have "offsetAt z d = Some (offset z d)"
      by (rule offsetAt_Some; rule rng; use od in simp)
    then show ?thesis by (simp add: newDateTime_def)
  qed
  have t0: "truncateNumber 0 = 0" by (simp add: truncateNumber_def)
  have "\<exists>r. dt_set_hour \<lparr>ts = d, zone = z\<rparr> 0 = Some r \<and> zone r = zone \<lparr>ts = d, zone = z\<rparr> \<and>
             ts \<lparr>ts = d, zone = z\<rparr> - 259200000 \<le> ts r \<and>
             ts r \<le> ts \<lparr>ts = d, zone = z\<rparr> + 259200000"
    by (rule dt_set_hour_safe) (use bnd t0 in \<open>simp_all add: rng\<close>)
  then obtain b where b: "dt_startOfDay \<lparr>ts = d, zone = z\<rparr> = Some b" "zone b = z"
      "d - 259200000 \<le> ts b" "ts b \<le> d + 259200000"
    unfolding dt_startOfDay_def by auto
  have bb: "\<forall>t. - 1440 \<le> offset (zone b) t \<and> offset (zone b) t \<le> 1440"
    using bnd b(2) by simp
  have rb: "inDateRange (ts b - 345600000)" "inDateRange (ts b + 345600000)"
    by (rule rng; use b in simp)+
  from dt_set_hour_safe[OF bb tr(1,2) rb]
  obtain s where s: "dt_set_hour b (startHour hours) = Some s" "zone s = z"
    using b(2) by auto
  from dt_set_hour_safe[OF bb tr(3,4) rb]
  obtain e0 where e0: "dt_set_hour b (endHour hours) = Some e0" "zone e0 = z"
      "ts b - 259200000 \<le> ts e0" "ts e0 \<le> ts b + 259200000"
    using b(2) by auto
  have be: "\<forall>t. - 1440 \<le> offset (zone e0) t \<and> offset (zone e0) t \<le> 1440"
    using bnd e0(2) by simp
  have re: "inDateRange (ts e0 - 345600000)" "inDateRange (ts e0 + 345600000)"
    by (rule rng; use b e0 in simp)+
  from dt_plus_days_safe[OF be re]
  obtain e1 where e1: "dt_plus_days e0 1 = Some e1" "zone e1 = z"
    using e0(2) by auto
  define e where "e = (if endHour hours \<le> startHour hours then e1 else e0)"
  have ez: "zone e = z" using e0(2) e1(2) by (simp add: e_def)
  have wrap: "if endHour hours \<le> startHour hours then dt_plus_days e0 1 = Some e else e = e0"
    using e1(1) by (simp add: e_def)
  have cs: "convertToUTC db (Some s) tz = Inr (s\<lparr>zone := utcZone\<rparr>)"
    by (rule convertToUTC_same_zone[OF v z s(2)])
  have ce: "convertToUTC db (Some e) tz = Inr (e\<lparr>zone := utcZone\<rparr>)"
    by (rule convertToUTC_same_zone[OF v z ez])
  have res: "workingHoursToUTC db hours tz (Some d) =
       Inr \<lparr>rangeStart = s\<lparr>zone := utcZone\<rparr>, rangeEnd = e\<lparr>zone := utcZone\<rparr>\<rparr>"
  proof (cases "endHour hours \<le> startHour hours")
    case True
    then have "e = e1" by (simp add: e_def)
    with True cs ce show ?thesis
      unfolding workingHoursToUTC_def fromJSDate_setZone_def Let_def
      by (simp add: z new b(1) s(1) e0(1) e1(1))
  next
    case False
    then have "e = e0" by (simp add: e_def)
    with False cs ce show ?thesis
      unfolding workingHoursToUTC_def fromJSDate_setZone_def Let_def
      by (simp add: z new b(1) s(1) e0(1))
  qed
  show ?thesis using b(1,2) s e0(1,2) wrap ez res by blast
qed

lemma workingHoursToUTC_returns:
  assumes "isValidTimezone db tz" and "db tz = Some z"
      and "isValidWorkingHours hours"
      and "\<forall>t. - 1440 \<le> offset z t \<and> offset z t \<le> 1440"
      and "inDateRange (d - 864000000)" "inDateRange (d + 864000000)"
  shows "\<exists>r. workingHoursToUTC db hours tz (Some d) = Inr r \<and>
             zone (rangeStart r) = utcZone \<and> zone (rangeEnd r) = utcZone"
  using workingHoursToUTC_chain[OF assms] by auto

subsection \<open>Wall clocks away from a clock change\<close>




subsection \<open>The intersection\<close>

lemma calculateIntersection_None:
  "calculateIntersection a b = None \<longleftrightarrow>
   min (ts (rangeEnd a)) (ts (rangeEnd b)) \<le> max (ts (rangeStart a)) (ts (rangeStart b))"
  by (auto simp: calculateIntersection_def Let_def)

lemma calculateIntersection_Some:
  assumes "calculateIntersection a b = Some i"
  shows "ts (rangeStart i) = max (ts (rangeStart a)) (ts (rangeStart b))"
    and "ts (rangeEnd i) = min (ts (rangeEnd a)) (ts (rangeEnd b))"
    and "ts (rangeStart i) < ts (rangeEnd i)"
  using assms by (auto simp: calculateIntersection_def Let_def split: if_splits)

lemma calculateOverlap_try_valid:
  assumes vA: "isValidTimezone db (timezone cityA)" and zA: "db (timezone cityA) = Some zA"
      and vB: "isValidTimezone db (timezone cityB)" and zB: "db (timezone cityB) = Some zB"
      and rA: "workingHoursToUTC db hA (timezone cityA) date = Inr rangeA"
      and rB: "workingHoursToUTC db hB (timezone cityB) date = Inr rangeB"
  shows "calculateOverlap_try db cityA cityB hA hB date =
     (case calculateIntersection rangeA rangeB of
        None \<Rightarrow> Inr noOverlap
      | Some i \<Rightarrow>
          Inr \<lparr>hasOverlap = True,
               overlapInUTC = Some i,
               overlapInCityA = Some \<lparr>rangeStart = \<lparr>ts = ts (rangeStart i), zone = zA\<rparr>,
                                      rangeEnd = \<lparr>ts = ts (rangeEnd i), zone = zA\<rparr>\<rparr>,
               overlapInCityB = Some \<lparr>rangeStart = \<lparr>ts = ts (rangeStart i), zone = zB\<rparr>,
                                      rangeEnd = \<lparr>ts = ts (rangeEnd i), zone = zB\<rparr>\<rparr>,
               overlapMinutes = Some (dt_diff_minutes (rangeEnd i) (rangeStart i))\<rparr>)"
  unfolding calculateOverlap_try_def rA rB noOverlap_def
  by (simp add: convertFromUTC_valid[OF vA zA] convertFromUTC_valid[OF vB zB] split: option.splits)

lemma calculateOverlap_valid:
  assumes "isValidTimezone db (timezone cityA)" and "isValidTimezone db (timezone cityB)"
      and "isValidWorkingHours hA" and "isValidWorkingHours hB"
  shows "calculateOverlap db cityA cityB hA hB date =
     (case calculateOverlap_try db cityA cityB hA hB date of
        Inl e \<Rightarrow> Inl (calculateOverlap_catch e)
      | Inr r \<Rightarrow> Inr r)"
proof -
  have "timezone cityA \<noteq> []" "timezone cityB \<noteq> []"
    using assms(1,2) by (simp_all add: isValidTimezone_known)
  then show ?thesis using assms by (simp add: calculateOverlap_def)
qed


lemma sample_valid:
  "isValidTimezone sampleZones ''America/New_York''"
  "isValidTimezone sampleZones ''Europe/London''"
  "isValidTimezone sampleZones ''Asia/Tokyo''"
  by (simp_all add: isValidTimezone_def sampleZones_def zoneNewYork_def zoneLondon_def
        zoneTokyo_def)

lemma sample_lookup:
  "sampleZones ''America/New_York'' = Some zoneNewYork"
  "sampleZones ''Europe/London'' = Some zoneLondon"
  "sampleZones ''Asia/Tokyo'' = Some zoneTokyo"
  by (simp_all add: sampleZones_def)

lemma sample_timezone:
  "timezone cityNewYork = ''America/New_York''"
  "timezone cityLondon = ''Europe/London''"
  "timezone cityTokyo = ''Asia/Tokyo''"
  by (simp_all add: cityNewYork_def cityLondon_def cityTokyo_def)

lemma sample_hours:
  "isValidWorkingHours nineToSix" "isValidWorkingHours tenToSixNight"
  by (simp_all add: isValidWorkingHours_def nineToSix_def tenToSixNight_def)

lemma sample_offsets:
  "\<forall>t. - 1440 \<le> offset zoneNewYork t \<and> offset zoneNewYork t \<le> 1440"
  "\<forall>t. - 1440 \<le> offset zoneLondon t \<and> offset zoneLondon t \<le> 1440"
  "\<forall>t. - 1440 \<le> offset zoneTokyo t \<and> offset zoneTokyo t \<le> 1440"
  by (simp_all add: zoneNewYork_def zoneLondon_def zoneTokyo_def)

text \<open>
  Claim C1, as stated, fails at the end of the range of \<open>Date\<close>. The date of time value
  \<open>8640000000000000\<close> is valid, and so are the zones and the working hours; but the wall
  clock of Tokyo at that instant lies outside the range, the date-time in Tokyo is invalid,
  the conversion throws, and \<open>calculateOverlap\<close> throws the generic error: it returns
  neither of the two results.
\<close>

theorem calculateOverlap_date_counterexample:
  "isValidTimezone sampleZones (timezone cityTokyo) \<and>
   isValidTimezone sampleZones (timezone cityLondon) \<and>
   isValidWorkingHours nineToSix \<and>
   inDateRange 8640000000000000 \<and>
   map_sum message hasOverlap
     (calculateOverlap sampleZones cityTokyo cityLondon nineToSix nineToSix
        (Some 8640000000000000))
     = Inl ''Failed to calculate overlap. Please check your inputs and try again.''"
  by code_simp

text \<open>
  Claim C1, amended. For valid zones whose offsets stay within a day, valid working hours
  and a date at least ten days (\<open>864000000\<close> milliseconds) inside the range of \<open>Date\<close>,
  both ranges are computed and \<open>calculateOverlap\<close> intersects them: with \<open>s\<close> the later
  start and \<open>e\<close> the earlier end, it returns the result without overlap, all optional
  fields absent, when \<open>s \<ge> e\<close>; otherwise it returns a result with \<open>hasOverlap\<close>, the
  window from \<open>s\<close> to \<open>e\<close> in UTC and in both zones, \<open>s < e\<close>, and \<open>durationMinutes\<close>
  positive and equal to the distance from \<open>s\<close> to \<open>e\<close> in minutes.
\<close>

theorem calculateOverlap_intersection:
  assumes vA: "isValidTimezone db (timezone cityA)" and vB: "isValidTimezone db (timezone cityB)"
      and hA: "isValidWorkingHours hA" and hB: "isValidWorkingHours hB"
      and zA: "db (timezone cityA) = Some zA" and zB: "db (timezone cityB) = Some zB"
      and oA: "\<forall>t. - 1440 \<le> offset zA t \<and> offset zA t \<le> 1440"
      and oB: "\<forall>t. - 1440 \<le> offset zB t \<and> offset zB t \<le> 1440"
      and dr: "inDateRange (d - 864000000)" "inDateRange (d + 864000000)"
  shows "\<exists>rangeA rangeB.
     workingHoursToUTC db hA (timezone cityA) (Some d) = Inr rangeA \<and>
     workingHoursToUTC db hB (timezone cityB) (Some d) = Inr rangeB \<and>
     (let s = max (ts (rangeStart rangeA)) (ts (rangeStart rangeB));
          e = min (ts (rangeEnd rangeA)) (ts (rangeEnd rangeB))
      in if s \<ge> e then
           calculateOverlap db cityA cityB hA hB (Some d) =
             Inr \<lparr>hasOverlap = False, overlapInUTC = None, overlapInCityA = None,
                  overlapInCityB = None, overlapMinutes = None\<rparr>
         else
           (\<exists>r utc inA inB m.
              calculateOverlap db cityA cityB hA hB (Some d) = Inr r \<and> hasOverlap r \<and>
              overlapInUTC r = Some utc \<and>
              ts (rangeStart utc) = s \<and> ts (rangeEnd utc) = e \<and>
              ts (rangeStart utc) < ts (rangeEnd utc) \<and>
              overlapInCityA r = Some inA \<and>
              ts (rangeStart inA) = s \<and> ts (rangeEnd inA) = e \<and>
              zoneName (zone (rangeStart inA)) = timezone cityA \<and>
              zoneName (zone (rangeEnd inA)) = timezone cityA \<and>
              overlapInCityB r = Some inB \<and>
              ts (rangeStart inB) = s \<and> ts (rangeEnd inB) = e \<and>
              zoneName (zone (rangeStart inB)) = timezone cityB \<and>
              zoneName (zone (rangeEnd inB)) = timezone cityB \<and>
              overlapMinutes r = Some m \<and> m > 0 \<and>
              m = of_int (ts (rangeEnd utc) - ts (rangeStart utc)) / 60000 \<and>
              \<bar>m - of_int (ts (rangeEnd utc) - ts (rangeStart utc)) / 60000\<bar> < 1))"
proof -
  from vA zA have nA: "zoneName zA = timezone cityA"
    by (auto simp: isValidTimezone_known)
  from vB zB have nB: "zoneName zB = timezone cityB"
    by (auto simp: isValidTimezone_known)
  from workingHoursToUTC_returns[OF vA zA hA oA dr]
  obtain rangeA where rA: "workingHoursToUTC db hA (timezone cityA) (Some d) = Inr rangeA"
    by blast
  from workingHoursToUTC_returns[OF vB zB hB oB dr]
  obtain rangeB where rB: "workingHoursToUTC db hB (timezone cityB) (Some d) = Inr rangeB"
    by blast
  define s where "s = max (ts (rangeStart rangeA)) (ts (rangeStart rangeB))"
  define e where "e = min (ts (rangeEnd rangeA)) (ts (rangeEnd rangeB))"
  note inner = calculateOverlap_try_valid[OF vA zA vB zB rA rB]
  note outer = calculateOverlap_valid[OF vA vB hA hB, of "Some d"]
  have body: "if s \<ge> e then
           calculateOverlap db cityA cityB hA hB (Some d) =
             Inr \<lparr>hasOverlap = False, overlapInUTC = None, overlapInCityA = None,
                  overlapInCityB = None, overlapMinutes = None\<rparr>
         else
           (\<exists>r utc inA inB m.
              calculateOverlap db cityA cityB hA hB (Some d) = Inr r \<and> hasOverlap r \<and>
              overlapInUTC r = Some utc \<and>
              ts (rangeStart utc) = s \<and> ts (rangeEnd utc) = e \<and>
              ts (rangeStart utc) < ts (rangeEnd utc) \<and>
              overlapInCityA r = Some inA \<and>
              ts (rangeStart inA) = s \<and> ts (rangeEnd inA) = e \<and>
              zoneName (zone (rangeStart inA)) = timezone cityA \<and>
              zoneName (zone (rangeEnd inA)) = timezone cityA \<and>
              overlapInCityB r = Some inB \<and>
              ts (rangeStart inB) = s \<and> ts (rangeEnd inB) = e \<and>
              zoneName (zone (rangeStart inB)) = timezone cityB \<and>
              zoneName (zone (rangeEnd inB)) = timezone cityB \<and>
              overlapMinutes r = Some m \<and> m > 0 \<and>
              m = of_int (ts (rangeEnd utc) - ts (rangeStart utc)) / 60000 \<and>
              \<bar>m - of_int (ts (rangeEnd utc) - ts (rangeStart utc)) / 60000\<bar> < 1)"
  proof (cases "calculateIntersection rangeA rangeB")
    case None
    then have "e \<le> s" unfolding s_def e_def by (simp add: calculateIntersection_None)
    moreover have "calculateOverlap db cityA cityB hA hB (Some d) = Inr noOverlap"
      unfolding outer inner None by simp
    ultimately show ?thesis by (simp add: noOverlap_def)
  next
    case (Some i)
    note facts = calculateIntersection_Some[OF Some]
    have lt: "s < e" using facts unfolding s_def e_def by simp
    have pos: "dt_diff_minutes (rangeEnd i) (rangeStart i) > 0"
      using facts(3) by (simp add: dt_diff_minutes_def)
    have res: "calculateOverlap db cityA cityB hA hB (Some d) =
          Inr \<lparr>hasOverlap = True,
               overlapInUTC = Some i,
               overlapInCityA = Some \<lparr>rangeStart = \<lparr>ts = ts (rangeStart i), zone = zA\<rparr>,
                                      rangeEnd = \<lparr>ts = ts (rangeEnd i), zone = zA\<rparr>\<rparr>,
               overlapInCityB = Some \<lparr>rangeStart = \<lparr>ts = ts (rangeStart i), zone = zB\<rparr>,
                                      rangeEnd = \<lparr>ts = ts (rangeEnd i), zone = zB\<rparr>\<rparr>,
               overlapMinutes = Some (dt_diff_minutes (rangeEnd i) (rangeStart i))\<rparr>"
      unfolding outer inner Some by simp
    have "\<exists>r utc inA inB m.
              calculateOverlap db cityA cityB hA hB (Some d) = Inr r \<and> hasOverlap r \<and>
              overlapInUTC r = Some utc \<and>
              ts (rangeStart utc) = s \<and> ts (rangeEnd utc) = e \<and>
              ts (rangeStart utc) < ts (rangeEnd utc) \<and>
              overlapInCityA r = Some inA \<and>
              ts (rangeStart inA) = s \<and> ts (rangeEnd inA) = e \<and>
              zoneName (zone (rangeStart inA)) = timezone cityA \<and>
              zoneName (zone (rangeEnd inA)) = timezone cityA \<and>
              overlapInCityB r = Some inB \<and>
              ts (rangeStart inB) = s \<and> ts (rangeEnd inB) = e \<and>
              zoneName (zone (rangeStart inB)) = timezone cityB \<and>
              zoneName (zone (rangeEnd inB)) = timezone cityB \<and>
              overlapMinutes r = Some m \<and> m > 0 \<and>
              m = of_int (ts (rangeEnd utc) - ts (rangeStart utc)) / 60000 \<and>
              \<bar>m - of_int (ts (rangeEnd utc) - ts (rangeStart utc)) / 60000\<bar> < 1"
      apply (rule exI[of _ "\<lparr>hasOverlap = True,
               overlapInUTC = Some i,
               overlapInCityA = Some \<lparr>rangeStart = \<lparr>ts = ts (rangeStart i), zone = zA\<rparr>,
                                      rangeEnd = \<lparr>ts = ts (rangeEnd i), zone = zA\<rparr>\<rparr>,
               overlapInCityB = Some \<lparr>rangeStart = \<lparr>ts = ts (rangeStart i), zone = zB\<rparr>,
                                      rangeEnd = \<lparr>ts = ts (rangeEnd i), zone = zB\<rparr>\<rparr>,
               overlapMinutes = Some (dt_diff_minutes (rangeEnd i) (rangeStart i))\<rparr>"])
      apply (rule exI[of _ i])
      apply (rule exI[of _ "\<lparr>rangeStart = \<lparr>ts = ts (rangeStart i), zone = zA\<rparr>,
                                      rangeEnd = \<lparr>ts = ts (rangeEnd i), zone = zA\<rparr>\<rparr>"])
      apply (rule exI[of _ "\<lparr>rangeStart = \<lparr>ts = ts (rangeStart i), zone = zB\<rparr>,
                                      rangeEnd = \<lparr>ts = ts (rangeEnd i), zone = zB\<rparr>\<rparr>"])
      apply (rule exI[of _ "dt_diff_minutes (rangeEnd i) (rangeStart i)"])
      using res facts pos nA nB unfolding s_def e_def
      apply (simp add: dt_diff_minutes_def)
      done
    with lt show ?thesis by simp
  qed
  show ?thesis
    apply (rule exI[of _ rangeA], rule exI[of _ rangeB])
    using rA rB body unfolding s_def e_def Let_def by simp
qed

text \<open>
  New York and London, both 9 to 18, on 15 June 2024: the ranges are 13:00 to 22:00 and
  08:00 to 17:00 UTC, the overlap is 240 minutes.
\<close>

theorem calculateOverlap_intersection_witness:
  "isValidTimezone sampleZones (timezone cityNewYork) \<and>
   isValidTimezone sampleZones (timezone cityLondon) \<and>
   isValidWorkingHours nineToSix \<and>
   inDateRange (1718452800000 - 864000000) \<and> inDateRange (1718452800000 + 864000000) \<and>
   (\<exists>r. calculateOverlap sampleZones cityNewYork cityLondon nineToSix nineToSix
           (Some 1718452800000) = Inr r \<and>
        hasOverlap r \<and> overlapMinutes r = Some 240)"
proof -
  have vA: "isValidTimezone sampleZones (timezone cityNewYork)"
    and vB: "isValidTimezone sampleZones (timezone cityLondon)"
    by (simp_all add: sample_timezone sample_valid)
  have h: "isValidWorkingHours nineToSix" by (rule sample_hours)
  have a: "map_sum id (\<lambda>r. (ts (rangeStart r), ts (rangeEnd r)))
             (workingHoursToUTC sampleZones nineToSix (timezone cityNewYork) (Some 1718452800000))
           = Inr (1718456400000, 1718488800000)"
    by code_simp
  have b: "map_sum id (\<lambda>r. (ts (rangeStart r), ts (rangeEnd r)))
             (workingHoursToUTC sampleZones nineToSix (timezone cityLondon) (Some 1718452800000))
           = Inr (1718438400000, 1718470800000)"
    by code_simp
  have zA: "sampleZones (timezone cityNewYork) = Some zoneNewYork"
    and zB: "sampleZones (timezone cityLondon) = Some zoneLondon"
    by (simp_all add: sample_timezone sample_lookup)
  have dr: "inDateRange (1718452800000 - 864000000)" "inDateRange (1718452800000 + 864000000)"
    by (simp_all add: inDateRange_def maxDate_def)
  from calculateOverlap_intersection[OF vA vB h h zA zB sample_offsets(1) sample_offsets(2) dr]
  obtain rangeA rangeB where
    rA: "workingHoursToUTC sampleZones nineToSix (timezone cityNewYork) (Some 1718452800000)
           = Inr rangeA" and
    rB: "workingHoursToUTC sampleZones nineToSix (timezone cityLondon) (Some 1718452800000)
           = Inr rangeB" and
    body: "let s = max (ts (rangeStart rangeA)) (ts (rangeStart rangeB));
               e = min (ts (rangeEnd rangeA)) (ts (rangeEnd rangeB))
           in if s \<ge> e then
             calculateOverlap sampleZones cityNewYork cityLondon nineToSix nineToSix
               (Some 1718452800000) =
               Inr \<lparr>hasOverlap = False, overlapInUTC = None, overlapInCityA = None,
                    overlapInCityB = None, overlapMinutes = None\<rparr>
           else
             (\<exists>r utc inA inB m.
                calculateOverlap sampleZones cityNewYork cityLondon nineToSix nineToSix
                  (Some 1718452800000) = Inr r \<and> hasOverlap r \<and>
                overlapInUTC r = Some utc \<and>
                ts (rangeStart utc) = s \<and> ts (rangeEnd utc) = e \<and>
                ts (rangeStart utc) < ts (rangeEnd utc) \<and>
                overlapInCityA r = Some inA \<and>
                ts (rangeStart inA) = s \<and> ts (rangeEnd inA) = e \<and>
                zoneName (zone (rangeStart inA)) = timezone cityNewYork \<and>
                zoneName (zone (rangeEnd inA)) = timezone cityNewYork \<and>
                overlapInCityB r = Some inB \<and>
                ts (rangeStart inB) = s \<and> ts (rangeEnd inB) = e \<and>
                zoneName (zone (rangeStart inB)) = timezone cityLondon \<and>
                zoneName (zone (rangeEnd inB)) = timezone cityLondon \<and>
                overlapMinutes r = Some m \<and> m > 0 \<and>
                m = of_int (ts (rangeEnd utc) - ts (rangeStart utc)) / 60000 \<and>
                \<bar>m - of_int (ts (rangeEnd utc) - ts (rangeStart utc)) / 60000\<bar> < 1)"
    by blast
  have tsA: "ts (rangeStart rangeA) = 1718456400000" "ts (rangeEnd rangeA) = 1718488800000"
    using a unfolding rA by simp_all
  have tsB: "ts (rangeStart rangeB) = 1718438400000" "ts (rangeEnd rangeB) = 1718470800000"
    using b unfolding rB by simp_all
  from body have "\<exists>r. calculateOverlap sampleZones cityNewYork cityLondon nineToSix nineToSix
       (Some 1718452800000) = Inr r \<and> hasOverlap r \<and> overlapMinutes r = Some 240"
    unfolding Let_def tsA tsB by auto
  then show ?thesis using vA vB h dr by blast
qed


subsection \<open>Working hours across midnight\<close>






subsection \<open>Validation of the working hours\<close>

lemma includes_timezone_A: "\<not> includes_str ''Invalid working hours for City A'' ''timezone''"
  by simp

lemma includes_timezone_B: "\<not> includes_str ''Invalid working hours for City B'' ''timezone''"
  by simp

lemma calculateOverlap_catch_not_hours:
  "calculateOverlap_catch e \<noteq> Error ''Invalid working hours for City A''"
  "calculateOverlap_catch e \<noteq> Error ''Invalid working hours for City B''"
  using includes_timezone_A includes_timezone_B
  by (cases e; auto simp: calculateOverlap_catch_def)+

text \<open>
  Claim C2, as stated, fails: the range 09:30 to 17:00 is malformed in the sense of the
  specification, its start is not an integer, and \<open>calculateOverlap\<close> accepts it and
  returns an overlap.
\<close>

theorem calculateOverlap_malformed_counterexample:
  "malformedRange halfPastNineToFive \<and>
   isValidWorkingHours halfPastNineToFive \<and>
   map_sum message hasOverlap
     (calculateOverlap sampleZones cityNewYork cityLondon halfPastNineToFive nineToSix
        (Some 1718452800000)) = Inr True"
  by code_simp

text \<open>
  Claim C2, amended. With valid zones, and for ranges whose end is not 24,
  \<open>calculateOverlap\<close> throws the error of invalid working hours exactly for the ranges
  with a bound below 0 or not below 24, or with equal bounds, first for city A, then for
  city B; whether a bound is an integer is not looked at. The date plays no part, so
  nothing has been converted when the error is thrown.
\<close>

theorem calculateOverlap_hours_validation:
  assumes vA: "isValidTimezone db (timezone cityA)" and vB: "isValidTimezone db (timezone cityB)"
      and nA: "endHour hA \<noteq> 24" and nB: "endHour hB \<noteq> 24"
  shows "(calculateOverlap db cityA cityB hA hB date = Inl (Error ''Invalid working hours for City A'')
            \<longleftrightarrow> (startHour hA < 0 \<or> 24 \<le> startHour hA \<or> endHour hA < 0 \<or> 24 \<le> endHour hA \<or>
                 startHour hA = endHour hA)) \<and>
         (calculateOverlap db cityA cityB hA hB date = Inl (Error ''Invalid working hours for City B'')
            \<longleftrightarrow> \<not> (startHour hA < 0 \<or> 24 \<le> startHour hA \<or> endHour hA < 0 \<or> 24 \<le> endHour hA \<or>
                   startHour hA = endHour hA) \<and>
                (startHour hB < 0 \<or> 24 \<le> startHour hB \<or> endHour hB < 0 \<or> 24 \<le> endHour hB \<or>
                 startHour hB = endHour hB))"
proof -
  have tz: "timezone cityA \<noteq> []" "timezone cityB \<noteq> []"
    using vA vB by (simp_all add: isValidTimezone_known)
  have a: "isValidWorkingHours hA \<longleftrightarrow>
      \<not> (startHour hA < 0 \<or> 24 \<le> startHour hA \<or> endHour hA < 0 \<or> 24 \<le> endHour hA \<or>
                 startHour hA = endHour hA)"
    using nA by (auto simp: isValidWorkingHours_def)
  have b: "isValidWorkingHours hB \<longleftrightarrow>
      \<not> (startHour hB < 0 \<or> 24 \<le> startHour hB \<or> endHour hB < 0 \<or> 24 \<le> endHour hB \<or>
                 startHour hB = endHour hB)"
    using nB by (auto simp: isValidWorkingHours_def)
  have res: "calculateOverlap db cityA cityB hA hB date =
      (if \<not> isValidWorkingHours hA then Inl (Error ''Invalid working hours for City A'')
       else if \<not> isValidWorkingHours hB then Inl (Error ''Invalid working hours for City B'')
       else case calculateOverlap_try db cityA cityB hA hB date of
              Inl e \<Rightarrow> Inl (calculateOverlap_catch e)
            | Inr r \<Rightarrow> Inr r)"
    using tz vA vB by (simp add: calculateOverlap_def)
  have ok: "calculateOverlap db cityA cityB hA hB date \<noteq> Inl (Error ''Invalid working hours for City A'')
          \<and> calculateOverlap db cityA cityB hA hB date \<noteq> Inl (Error ''Invalid working hours for City B'')"
    if "isValidWorkingHours hA" "isValidWorkingHours hB"
    using that calculateOverlap_catch_not_hours unfolding res
    by (simp split: sum.splits)
  show ?thesis
  proof (cases "isValidWorkingHours hA")
    case False
    then show ?thesis using a unfolding res by simp
  next
    case True
    note vhA = this
    show ?thesis
    proof (cases "isValidWorkingHours hB")
      case False
      then show ?thesis using vhA a b unfolding res by simp
    next
      case True
      from ok[OF vhA True] vhA True a b show ?thesis by simp
    qed
  qed
qed

text \<open>
  Hours 9 to 9 are rejected, with an invalid date that no conversion could pass; hours
  09:30 to 17:00 are not.
\<close>

theorem calculateOverlap_hours_validation_witness:
  "isValidTimezone sampleZones (timezone cityNewYork) \<and>
   isValidTimezone sampleZones (timezone cityLondon) \<and>
   calculateOverlap sampleZones cityNewYork cityLondon \<lparr>startHour = 9, endHour = 9\<rparr> nineToSix None
     = Inl (Error ''Invalid working hours for City A'') \<and>
   calculateOverlap sampleZones cityNewYork cityLondon halfPastNineToFive nineToSix
     (Some 1718452800000) \<noteq> Inl (Error ''Invalid working hours for City A'')"
proof -
  have vA: "isValidTimezone sampleZones (timezone cityNewYork)"
    and vB: "isValidTimezone sampleZones (timezone cityLondon)"
    by (simp_all add: sample_timezone sample_valid)
  have n: "endHour \<lparr>startHour = 9, endHour = 9\<rparr> \<noteq> 24" "endHour nineToSix \<noteq> 24"
    "endHour halfPastNineToFive \<noteq> 24"
    by (simp_all add: nineToSix_def halfPastNineToFive_def)
  have rej: "calculateOverlap sampleZones cityNewYork cityLondon \<lparr>startHour = 9, endHour = 9\<rparr>
      nineToSix None = Inl (Error ''Invalid working hours for City A'')"
    using calculateOverlap_hours_validation[OF vA vB n(1) n(2), of None] by simp
  have acc: "calculateOverlap sampleZones cityNewYork cityLondon halfPastNineToFive nineToSix
     (Some 1718452800000) \<noteq> Inl (Error ''Invalid working hours for City A'')"
    using calculateOverlap_hours_validation[OF vA vB n(3) n(2), of "Some 1718452800000"]
    by (simp add: halfPastNineToFive_def)
  from vA vB rej acc show ?thesis by blast
qed

subsection \<open>Errors of the conversion\<close>

lemma calculateOverlap_try_invalid_date:
  assumes vA: "isValidTimezone db (timezone cityA)"
  shows "calculateOverlap_try db cityA cityB hA hB None =
           Inl (Error ''Invalid DateTime object provided for conversion'')"
  unfolding calculateOverlap_try_def workingHoursToUTC_invalid_date[OF vA] by simp

text \<open>
  Claim C6, as stated, fails: with an invalid date the conversion throws
  \<open>Invalid DateTime object provided for conversion\<close>, which carries the word
  \<open>Invalid\<close>, and the caller receives the generic error instead; the \<open>catch\<close> block
  replaces an error whose message is \<open>invalid date\<close> as well.
\<close>

theorem calculateOverlap_catch_counterexample:
  "calculateOverlap_try sampleZones cityNewYork cityLondon nineToSix nineToSix None
     = Inl (Error ''Invalid DateTime object provided for conversion'') \<and>
   includes_str ''Invalid DateTime object provided for conversion'' ''Invalid'' \<and>
   calculateOverlap sampleZones cityNewYork cityLondon nineToSix nineToSix None
     = Inl (Error ''Failed to calculate overlap. Please check your inputs and try again.'') \<and>
   calculateOverlap_catch (Error ''invalid date'')
     = Error ''Failed to calculate overlap. Please check your inputs and try again.''"
proof -
  have vA: "isValidTimezone sampleZones (timezone cityNewYork)"
    and vB: "isValidTimezone sampleZones (timezone cityLondon)"
    by (simp_all add: sample_timezone sample_valid)
  have t: "calculateOverlap_try sampleZones cityNewYork cityLondon nineToSix nineToSix None
     = Inl (Error ''Invalid DateTime object provided for conversion'')"
    by (rule calculateOverlap_try_invalid_date[OF vA])
  have i: "includes_str ''Invalid DateTime object provided for conversion'' ''Invalid''"
    by simp
  have c: "calculateOverlap sampleZones cityNewYork cityLondon nineToSix nineToSix None
     = Inl (Error ''Failed to calculate overlap. Please check your inputs and try again.'')"
    unfolding calculateOverlap_valid[OF vA vB sample_hours(1) sample_hours(1)] t
    by (simp add: calculateOverlap_catch_def)
  have h: "calculateOverlap_catch (Error ''invalid date'')
     = Error ''Failed to calculate overlap. Please check your inputs and try again.''"
    by (simp add: calculateOverlap_catch_def)
  from t i c h show ?thesis by blast
qed

text \<open>
  Claim C6, amended. Once the zones and the working hours have passed validation, an
  error thrown by the conversion or the intersection reaches the caller unchanged exactly
  when its message contains \<open>timezone\<close>; every other error is replaced by the one
  generic error.
\<close>

theorem calculateOverlap_error_wrapping:
  assumes vA: "isValidTimezone db (timezone cityA)" and vB: "isValidTimezone db (timezone cityB)"
      and hA: "isValidWorkingHours hA" and hB: "isValidWorkingHours hB"
  shows "calculateOverlap db cityA cityB hA hB date =
     (case calculateOverlap_try db cityA cityB hA hB date of
        Inr r \<Rightarrow> Inr r
      | Inl e \<Rightarrow>
          if includes_str (message e) ''timezone'' then Inl e
          else Inl (Error ''Failed to calculate overlap. Please check your inputs and try again.''))"
  unfolding calculateOverlap_valid[OF vA vB hA hB]
  by (simp add: calculateOverlap_catch_def split: sum.splits)

text \<open>With an invalid date the caller receives the generic error.\<close>

theorem calculateOverlap_error_wrapping_witness:
  "isValidTimezone sampleZones (timezone cityNewYork) \<and>
   isValidTimezone sampleZones (timezone cityLondon) \<and>
   isValidWorkingHours nineToSix \<and>
   calculateOverlap sampleZones cityNewYork cityLondon nineToSix nineToSix None
     = Inl (Error ''Failed to calculate overlap. Please check your inputs and try again.'')"
proof -
  have vA: "isValidTimezone sampleZones (timezone cityNewYork)"
    and vB: "isValidTimezone sampleZones (timezone cityLondon)"
    by (simp_all add: sample_timezone sample_valid)
  have t: "calculateOverlap_try sampleZones cityNewYork cityLondon nineToSix nineToSix None
     = Inl (Error ''Invalid DateTime object provided for conversion'')"
    by (rule calculateOverlap_try_invalid_date[OF vA])
  have "calculateOverlap sampleZones cityNewYork cityLondon nineToSix nineToSix None
     = Inl (Error ''Failed to calculate overlap. Please check your inputs and try again.'')"
    using calculateOverlap_error_wrapping[OF vA vB sample_hours(1) sample_hours(1), of None]
    unfolding t by simp
  with vA vB sample_hours(1) show ?thesis by blast
qed

section \<open>The round trip of the converter\<close>




end
